theory Spec2Isabelle
  imports Complex_Main "HOL-Library.Sublist"
begin

section \<open>JavaScript numbers, dates and the wall clock\<close>

text \<open>
  A JavaScript number that holds a count of milliseconds or of days is modelled as an
  integer, with \<open>None\<close> for \<open>NaN\<close> (the time value of an Invalid Date and everything
  computed from it). Every time value a \<open>Date\<close> can hold is at most \<open>8.64 * 10^15\<close> in
  magnitude, below \<open>2^53\<close>, where doubles are exact on integers. For the calendar dates
  modelled below (years 0000 to 9999) and every instant the clock can show, the difference
  of two time values stays below \<open>2^53\<close> and their distance in days below \<open>2^27\<close>, so
  that the rounded quotient by the milliseconds of a day has the ceiling of the exact one.
\<close>

type_synonym number = "int option"

text \<open>\<open>a - b\<close> on numbers: \<open>NaN\<close> is contagious.\<close>

definition num_sub :: "number \<Rightarrow> number \<Rightarrow> number" where
  "num_sub a b = (case (a, b) of (Some x, Some y) \<Rightarrow> Some (x - y) | _ \<Rightarrow> None)"

text \<open>The relational operators \<open>>=\<close>, \<open><=\<close>, \<open><\<close>: false as soon as one side is \<open>NaN\<close>.\<close>

definition num_ge :: "number \<Rightarrow> number \<Rightarrow> bool" where
  "num_ge a b = (case (a, b) of (Some x, Some y) \<Rightarrow> x \<ge> y | _ \<Rightarrow> False)"

definition num_le :: "number \<Rightarrow> number \<Rightarrow> bool" where
  "num_le a b = (case (a, b) of (Some x, Some y) \<Rightarrow> x \<le> y | _ \<Rightarrow> False)"

definition num_lt :: "number \<Rightarrow> number \<Rightarrow> bool" where
  "num_lt a b = (case (a, b) of (Some x, Some y) \<Rightarrow> x < y | _ \<Rightarrow> False)"

text \<open>The constant \<open>1000 * 60 * 60 * 24\<close> of \<open>bloomStatus.ts\<close>: the milliseconds of a day.\<close>

definition MS_PER_DAY :: int where
  "MS_PER_DAY = 1000 * 60 * 60 * 24"

text \<open>\<open>Math.ceil(x / d)\<close> for a positive integer \<open>d\<close>: the least integer not below the quotient.\<close>

definition Math_ceil_div :: "number \<Rightarrow> int \<Rightarrow> number" where
  "Math_ceil_div x d = map_option (\<lambda>a. - ((- a) div d)) x"

text \<open>
  The wall clock. \<open>new Date()\<close> reads it; the reading is not an argument of the
  function that calls it. A clock is the sequence of readings that the coming calls of
  \<open>new Date()\<close> return: \<open>clk 0\<close> is what the next call gets, and \<open>tick clk\<close> is the clock
  once that call has been made.
\<close>

type_synonym clock = "nat \<Rightarrow> int"

definition new_Date :: "clock \<Rightarrow> number" where
  "new_Date clk = Some (clk 0)"

definition tick :: "clock \<Rightarrow> clock" where
  "tick clk = (\<lambda>k. clk (Suc k))"

text \<open>A clock that shows the same instant at every reading.\<close>

definition steady_clock :: "int \<Rightarrow> clock" where
  "steady_clock t = (\<lambda>k. t)"

text \<open>
  \<open>new Date(string)\<close> for the calendar-date form \<open>YYYY-MM-DD\<close>, the form of the dates
  of the catalog: such a string denotes midnight UTC of that day. The day number since
  1970-01-01 is computed as ECMAScript's \<open>MakeDay\<close> does (month 01 to 12, day 01 to 31;
  a day beyond the month's end runs into the next month). Any other string is taken as an
  Invalid Date here, whose time value is \<open>NaN\<close>; the classifier sees a date string only
  through the time value it parses to.
\<close>

definition isDigit :: "char \<Rightarrow> bool" where
  "isDigit c = (48 \<le> (of_char c :: nat) \<and> (of_char c :: nat) \<le> 57)"

definition digitsValue :: "string \<Rightarrow> int" where
  "digitsValue ds = foldl (\<lambda>acc c. 10 * acc + (int (of_char c) - 48)) 0 ds"

definition InLeapYear :: "int \<Rightarrow> bool" where
  "InLeapYear y =
     (if y mod 4 \<noteq> 0 then False
      else if y mod 100 \<noteq> 0 then True
      else if y mod 400 \<noteq> 0 then False
      else True)"

definition DayFromYear :: "int \<Rightarrow> int" where
  "DayFromYear y =
     365 * (y - 1970) + (y - 1969) div 4 - (y - 1901) div 100 + (y - 1601) div 400"

definition DayWithinYear :: "int \<Rightarrow> int \<Rightarrow> int" where
  "DayWithinYear y m =
     [0, 31, 59, 90, 120, 151, 181, 212, 243, 273, 304, 334] ! nat (m - 1)
       + (if InLeapYear y \<and> m > 2 then 1 else 0)"

definition MakeDay :: "int \<Rightarrow> int \<Rightarrow> int \<Rightarrow> int" where
  "MakeDay y m d = DayFromYear y + DayWithinYear y m + d - 1"

definition Date_parse :: "string \<Rightarrow> number" where
  "Date_parse s =
     (if length s = 10 \<and> s ! 4 = CHR ''-'' \<and> s ! 7 = CHR ''-''
         \<and> list_all isDigit (take 4 s) \<and> list_all isDigit (take 2 (drop 5 s))
         \<and> list_all isDigit (drop 8 s)
      then (let y = digitsValue (take 4 s);
                m = digitsValue (take 2 (drop 5 s));
                d = digitsValue (drop 8 s)
            in if 1 \<le> m \<and> m \<le> 12 \<and> 1 \<le> d \<and> d \<le> 31
               then Some (MakeDay y m d * MS_PER_DAY) else None)
      else None)"


section \<open>The bloom status classifier (\<open>utils/bloomStatus.ts\<close>)\<close>

datatype bloom_status = Active | Upcoming | Past

text \<open>
  The object \<open>getBloomStatus\<close> returns. The optional fields \<open>daysUntil?\<close> and
  \<open>daysSince?\<close> are \<open>None\<close> when absent (\<open>undefined\<close>).
\<close>

record bloomStatus =
  isActive :: bool
  status :: bloom_status
  daysUntil :: "number option"
  daysSince :: "number option"

definition isBloomActive :: "clock \<Rightarrow> string \<times> string \<Rightarrow> bool" where
  "isBloomActive clk peakTimeInterval =
     (let now = new_Date clk;
          (startDate, endDate) = peakTimeInterval;
          start = Date_parse startDate;
          end = Date_parse endDate
      in num_ge now start \<and> num_le now end)"

definition getBloomStatus :: "clock \<Rightarrow> string \<times> string \<Rightarrow> bloomStatus" where
  "getBloomStatus clk peakTimeInterval =
     (let now = new_Date clk;
          (startDate, endDate) = peakTimeInterval;
          start = Date_parse startDate;
          end = Date_parse endDate
      in if num_ge now start \<and> num_le now end then
           \<lparr>isActive = True, status = Active, daysUntil = None, daysSince = None\<rparr>
         else if num_lt now start then
           \<lparr>isActive = False, status = Upcoming,
            daysUntil = Some (Math_ceil_div (num_sub start now) MS_PER_DAY),
            daysSince = None\<rparr>
         else
           \<lparr>isActive = False, status = Past, daysUntil = None,
            daysSince = Some (Math_ceil_div (num_sub now end) MS_PER_DAY)\<rparr>)"


section \<open>The event catalog (\<open>components/EventsList.tsx\<close>)\<close>

text \<open>
  Modelled from the spec: the declaration of the event record that \<open>EventsList.tsx\<close> and
  the image viewer read (\<open>SuperbloomEventData\<close> with \<open>peakTimeInterval\<close>, \<open>images\<close>,
  \<open>satelliteImages\<close> and the optional \<open>graphImages\<close>) is not among the sources; the
  fields below are those of the spec's data model that the code reads. A satellite image
  is a year with an image reference, a graph image a title with an image reference.
\<close>

record event =
  event_id :: int
  title :: string
  location :: string
  tags :: "string list"
  peakTimeInterval :: "string \<times> string"
  images :: "string list"
  satelliteImages :: "(int \<times> string) list"
  graphImages :: "(string \<times> string) list option"

text \<open>
  Strings are lists of code units in the range U+0000 to U+00FF (Latin-1), one
  character each. On that range \<open>String.prototype.toLowerCase\<close> works unit by unit: it
  maps the capitals \<open>A\<close> to \<open>Z\<close> (65 to 90), U+00C0 to U+00D6 (192 to 214) and U+00D8 to
  U+00DE (216 to 222) to the small letter 32 places further, and leaves every other unit,
  the multiplication sign U+00D7 among them, as it is.
\<close>

definition toLowerChar :: "char \<Rightarrow> char" where
  "toLowerChar c =
     (let n = (of_char c :: nat)
      in if (65 \<le> n \<and> n \<le> 90) \<or> (192 \<le> n \<and> n \<le> 214) \<or> (216 \<le> n \<and> n \<le> 222)
         then char_of (n + 32) else c)"

definition toLowerCase :: "string \<Rightarrow> string" where
  "toLowerCase s = map toLowerChar s"

text \<open>\<open>hay.includes(needle)\<close>: the needle starts at some position of the hay.\<close>

fun String_includes :: "string \<Rightarrow> string \<Rightarrow> bool" where
  "String_includes [] needle = (needle = [])"
| "String_includes (h # hay) needle = (prefix needle (h # hay) \<or> String_includes hay needle)"

datatype filter_key = FilterAll | FilterActive | FilterSoon | FilterInactive

text \<open>
  An optional number in a condition: \<open>undefined\<close>, \<open>NaN\<close> and \<open>0\<close> are falsy. Compared with
  a number, \<open>undefined\<close> is converted to \<open>NaN\<close>.
\<close>

definition truthy :: "number option \<Rightarrow> bool" where
  "truthy v = (case v of Some (Some d) \<Rightarrow> d \<noteq> 0 | _ \<Rightarrow> False)"

definition toNumber :: "number option \<Rightarrow> number" where
  "toNumber v = (case v of Some n \<Rightarrow> n | None \<Rightarrow> None)"

definition num_gt :: "number \<Rightarrow> number \<Rightarrow> bool" where
  "num_gt a b = (case (a, b) of (Some x, Some y) \<Rightarrow> x > y | _ \<Rightarrow> False)"

definition matchesFilter :: "filter_key \<Rightarrow> bloomStatus \<Rightarrow> bool" where
  "matchesFilter filter_k bs =
     (filter_k = FilterAll \<or>
      (filter_k = FilterActive \<and> status bs = Active) \<or>
      (filter_k = FilterSoon \<and>
         status bs = Upcoming \<and>
         truthy (daysUntil bs) \<and>
         num_le (toNumber (daysUntil bs)) (Some 50)) \<or>
      (filter_k = FilterInactive \<and>
         (status bs = Past \<or>
          (status bs = Upcoming \<and>
           truthy (daysUntil bs) \<and>
           num_gt (toNumber (daysUntil bs)) (Some 50)))))"

definition matchesSearch :: "string \<Rightarrow> event \<Rightarrow> bool" where
  "matchesSearch searchTerm ev =
     (searchTerm = [] \<or>
      String_includes (toLowerCase (title ev)) (toLowerCase searchTerm) \<or>
      String_includes (toLowerCase (location ev)) (toLowerCase searchTerm) \<or>
      list_ex (\<lambda>tag. String_includes (toLowerCase tag) (toLowerCase searchTerm)) (tags ev))"

text \<open>
  The callback of \<open>events.filter\<close>: it classifies the event, which reads the clock, and
  keeps the event when both conditions hold.
\<close>

definition filterCallback :: "clock \<Rightarrow> filter_key \<Rightarrow> string \<Rightarrow> event \<Rightarrow> bool" where
  "filterCallback clk filter_k searchTerm ev =
     (let bs = getBloomStatus clk (peakTimeInterval ev)
      in matchesFilter filter_k bs \<and> matchesSearch searchTerm ev)"

text \<open>
  \<open>filteredEvents\<close>: the callback runs once for each event, in order, so each event is
  classified at the next reading of the clock.
\<close>

fun filteredEvents :: "clock \<Rightarrow> filter_key \<Rightarrow> string \<Rightarrow> event list \<Rightarrow> event list" where
  "filteredEvents clk filter_k searchTerm [] = []"
| "filteredEvents clk filter_k searchTerm (ev # evs) =
     (if filterCallback clk filter_k searchTerm ev then [ev] else [])
       @ filteredEvents (tick clk) filter_k searchTerm evs"





section \<open>The image viewer (\<open>ImageView\<close>)\<close>

datatype ViewMode = satellite | gallery | graph

text \<open>
  The component's state variables. An index is a JavaScript number that holds an integer;
  \<open>zoomPosition\<close> is a pair of percentages.
\<close>

record viewer =
  viewMode :: ViewMode
  currentImageIndex :: int
  currentSatelliteIndex :: int
  currentGraphIndex :: int
  isZoomed :: bool
  zoomPosition :: "real \<times> real"
  imageLoaded :: bool

text \<open>
  The lengths the handlers test: \<open>selectedEvent?.images?.length\<close> and its two
  siblings are \<open>undefined\<close> when there is no selected event (or no graph images), which
  a condition takes as \<open>0\<close> does.
\<close>

definition images_length :: "event option \<Rightarrow> int" where
  "images_length selectedEvent =
     (case selectedEvent of None \<Rightarrow> 0 | Some ev \<Rightarrow> int (length (images ev)))"

definition satelliteImages_length :: "event option \<Rightarrow> int" where
  "satelliteImages_length selectedEvent =
     (case selectedEvent of None \<Rightarrow> 0 | Some ev \<Rightarrow> int (length (satelliteImages ev)))"

definition graphImages_length :: "event option \<Rightarrow> int" where
  "graphImages_length selectedEvent =
     (case selectedEvent of None \<Rightarrow> 0
      | Some ev \<Rightarrow> (case graphImages ev of None \<Rightarrow> 0 | Some gs \<Rightarrow> int (length gs)))"

text \<open>The effect that runs when the selected event changes.\<close>

definition resetOnEventChange :: "viewer \<Rightarrow> viewer" where
  "resetOnEventChange v =
     v\<lparr>currentImageIndex := 0, currentSatelliteIndex := 0, currentGraphIndex := 0,
       viewMode := satellite, isZoomed := False, imageLoaded := False\<rparr>"

text \<open>The tab buttons call the state setter \<open>setViewMode\<close> and nothing else.\<close>

definition setViewMode :: "ViewMode \<Rightarrow> viewer \<Rightarrow> viewer" where
  "setViewMode m v = v\<lparr>viewMode := m\<rparr>"

definition goToImage :: "int \<Rightarrow> viewer \<Rightarrow> viewer" where
  "goToImage index v =
     (let v1 = (if viewMode v = gallery then v\<lparr>currentImageIndex := index\<rparr>
                else if viewMode v = satellite then v\<lparr>currentSatelliteIndex := index\<rparr>
                else v\<lparr>currentGraphIndex := index\<rparr>)
      in v1\<lparr>isZoomed := False, imageLoaded := False\<rparr>)"

definition goToPrevious :: "event option \<Rightarrow> viewer \<Rightarrow> viewer" where
  "goToPrevious selectedEvent v =
     (if viewMode v = gallery then
        (if images_length selectedEvent = 0 then v
         else (let newIndex = (if currentImageIndex v = 0
                               then images_length selectedEvent - 1
                               else currentImageIndex v - 1)
               in v\<lparr>currentImageIndex := newIndex, isZoomed := False, imageLoaded := False\<rparr>))
      else if viewMode v = satellite then
        (if satelliteImages_length selectedEvent = 0 then v
         else (let newIndex = (if currentSatelliteIndex v = 0
                               then satelliteImages_length selectedEvent - 1
                               else currentSatelliteIndex v - 1)
               in v\<lparr>currentSatelliteIndex := newIndex, isZoomed := False, imageLoaded := False\<rparr>))
      else
        (if graphImages_length selectedEvent = 0 then v
         else (let newIndex = (if currentGraphIndex v = 0
                               then graphImages_length selectedEvent - 1
                               else currentGraphIndex v - 1)
               in v\<lparr>currentGraphIndex := newIndex, isZoomed := False, imageLoaded := False\<rparr>)))"

definition goToNext :: "event option \<Rightarrow> viewer \<Rightarrow> viewer" where
  "goToNext selectedEvent v =
     (if viewMode v = gallery then
        (if images_length selectedEvent = 0 then v
         else (let newIndex = (if currentImageIndex v = images_length selectedEvent - 1
                               then 0
                               else currentImageIndex v + 1)
               in v\<lparr>currentImageIndex := newIndex, isZoomed := False, imageLoaded := False\<rparr>))
      else if viewMode v = satellite then
        (if satelliteImages_length selectedEvent = 0 then v
         else (let newIndex = (if currentSatelliteIndex v = satelliteImages_length selectedEvent - 1
                               then 0
                               else currentSatelliteIndex v + 1)
               in v\<lparr>currentSatelliteIndex := newIndex, isZoomed := False, imageLoaded := False\<rparr>))
      else
        (if graphImages_length selectedEvent = 0 then v
         else (let newIndex = (if currentGraphIndex v = graphImages_length selectedEvent - 1
                               then 0
                               else currentGraphIndex v + 1)
               in v\<lparr>currentGraphIndex := newIndex, isZoomed := False, imageLoaded := False\<rparr>)))"

text \<open>
  The key handler is installed on the window whatever the length of the collection:
  the three tests run one after the other, and a key matches at most one of them.
\<close>

definition handleKeyDown :: "string \<Rightarrow> event option \<Rightarrow> viewer \<Rightarrow> viewer" where
  "handleKeyDown key selectedEvent v =
     (let v1 = (if key = ''ArrowLeft'' then goToPrevious selectedEvent v else v);
          v2 = (if key = ''ArrowRight'' then goToNext selectedEvent v1 else v1)
      in if key = ''Escape'' then v2\<lparr>isZoomed := False\<rparr> else v2)"

text \<open>
  \<open>currentData.length\<close> and \<open>currentIndex\<close>: the collection and the index of the mode
  that is shown.
\<close>

definition currentData_length :: "event option \<Rightarrow> viewer \<Rightarrow> int" where
  "currentData_length selectedEvent v =
     (if viewMode v = gallery then images_length selectedEvent
      else if viewMode v = satellite then satelliteImages_length selectedEvent
      else graphImages_length selectedEvent)"

definition currentIndex :: "viewer \<Rightarrow> int" where
  "currentIndex v =
     (if viewMode v = gallery then currentImageIndex v
      else if viewMode v = satellite then currentSatelliteIndex v
      else currentGraphIndex v)"

text \<open>A sequence of navigation calls, applied from left to right.\<close>

datatype nav_call = CallNext | CallPrevious | CallGoToImage int

fun run_call :: "event option \<Rightarrow> viewer \<Rightarrow> nav_call \<Rightarrow> viewer" where
  "run_call selectedEvent v CallNext = goToNext selectedEvent v"
| "run_call selectedEvent v CallPrevious = goToPrevious selectedEvent v"
| "run_call selectedEvent v (CallGoToImage i) = goToImage i v"

definition run_calls :: "event option \<Rightarrow> viewer \<Rightarrow> nav_call list \<Rightarrow> viewer" where
  "run_calls selectedEvent v calls = foldl (run_call selectedEvent) v calls"

text \<open>The index of the shown mode is valid: it lies in \<open>[0, length)\<close>.\<close>

definition index_valid :: "event option \<Rightarrow> viewer \<Rightarrow> bool" where
  "index_valid selectedEvent v =
     (0 \<le> currentIndex v \<and> currentIndex v < currentData_length selectedEvent v)"

text \<open>A call that the rendered controls can make: \<open>goToImage\<close> with an index of the collection.\<close>

fun call_in_range :: "event option \<Rightarrow> viewer \<Rightarrow> nav_call \<Rightarrow> bool" where
  "call_in_range selectedEvent v (CallGoToImage i) =
     (0 \<le> i \<and> i < currentData_length selectedEvent v)"
| "call_in_range selectedEvent v c = True"


section \<open>Concrete inputs\<close>

text \<open>A catalog entry with three gallery photos, two satellite images and no graphs.\<close>

definition example_event :: event where
  "example_event =
     \<lparr>event_id = 1, title = ''Antelope Valley Poppy Reserve'',
      location = ''Lancaster, California'', tags = [''poppies'', ''desert''],
      peakTimeInterval = (''2024-03-01'', ''2024-03-20''),
      images = [''/images/a.jpg'', ''/images/b.jpg'', ''/images/c.jpg''],
      satelliteImages = [(2019, ''/sat/2019.png''), (2023, ''/sat/2023.png'')],
      graphImages = None\<rparr>"

text \<open>The same entry with the two dates of its interval exchanged: start after end.\<close>

definition reversed_event :: event where
  "reversed_event = example_event\<lparr>peakTimeInterval := (''2024-03-20'', ''2024-03-01'')\<rparr>"


text \<open>The same entry with a single gallery photo.\<close>

definition single_image_event :: event where
  "single_image_event = example_event\<lparr>images := [''/images/a.jpg'']\<rparr>"

text \<open>
  A viewer that shows the first gallery photo, loaded; and the same viewer zoomed in.
\<close>

definition gallery_viewer :: viewer where
  "gallery_viewer =
     \<lparr>viewMode = gallery, currentImageIndex = 0, currentSatelliteIndex = 0,
      currentGraphIndex = 0, isZoomed = False, zoomPosition = (50, 50), imageLoaded = True\<rparr>"

definition zoomed_viewer :: viewer where
  "zoomed_viewer = gallery_viewer\<lparr>isZoomed := True\<rparr>"


section \<open>Facts about numbers, dates and the classifier\<close>

lemma MS_PER_DAY_pos: "0 < MS_PER_DAY"
  by (simp add: MS_PER_DAY_def)

lemma ceil_div_pos: "0 < x \<Longrightarrow> 0 < d \<Longrightarrow> 1 \<le> - ((- x) div d)" for x d :: int
proof -
  assume "0 < x" "0 < d"
  then have "(- x) div d < 0"
    by (simp add: div_neg_pos_less0)
  then show ?thesis by simp
qed

lemma new_Date_steady: "new_Date (steady_clock t) = Some t"
  by (simp add: new_Date_def steady_clock_def)

lemma Date_parse_2024_02_20: "Date_parse ''2024-02-20'' = Some 1708387200000"
  by (simp add: Date_parse_def isDigit_def digitsValue_def MakeDay_def DayFromYear_def
      DayWithinYear_def InLeapYear_def MS_PER_DAY_def)

lemma Date_parse_2024_03_01: "Date_parse ''2024-03-01'' = Some 1709251200000"
  by (simp add: Date_parse_def isDigit_def digitsValue_def MakeDay_def DayFromYear_def
      DayWithinYear_def InLeapYear_def MS_PER_DAY_def)

lemma Date_parse_2024_03_20: "Date_parse ''2024-03-20'' = Some 1710892800000"
  by (simp add: Date_parse_def isDigit_def digitsValue_def MakeDay_def DayFromYear_def
      DayWithinYear_def InLeapYear_def MS_PER_DAY_def)

text \<open>The classifier on an interval whose two dates parse, at the instant the clock shows.\<close>

lemma getBloomStatus_parsed:
  assumes "Date_parse startDate = Some s" and "Date_parse endDate = Some e"
    and "new_Date clk = Some now"
  shows "getBloomStatus clk (startDate, endDate) =
     (if s \<le> now \<and> now \<le> e then
        \<lparr>isActive = True, status = Active, daysUntil = None, daysSince = None\<rparr>
      else if now < s then
        \<lparr>isActive = False, status = Upcoming,
         daysUntil = Some (Some (- ((- (s - now)) div MS_PER_DAY))), daysSince = None\<rparr>
      else
        \<lparr>isActive = False, status = Past, daysUntil = None,
         daysSince = Some (Some (- ((- (now - e)) div MS_PER_DAY)))\<rparr>)"
  using assms
  by (simp add: getBloomStatus_def num_ge_def num_le_def num_lt_def num_sub_def
      Math_ceil_div_def)

text \<open>
  Whenever the status is \<open>upcoming\<close>, \<open>daysUntil\<close> is present and is a positive integer:
  the start date parsed and lies after the instant read.
\<close>

lemma getBloomStatus_upcoming_days:
  assumes "status (getBloomStatus clk interval) = Upcoming"
  shows "\<exists>d. daysUntil (getBloomStatus clk interval) = Some (Some d) \<and> 1 \<le> d"
proof -
  obtain startDate endDate where iv: "interval = (startDate, endDate)"
    by (cases interval)
  have up: "num_lt (new_Date clk) (Date_parse startDate)"
    using assms unfolding iv getBloomStatus_def Let_def
    by (simp split: if_splits)
  then obtain s where s: "Date_parse startDate = Some s" and lt: "clk 0 < s"
    by (auto simp add: num_lt_def new_Date_def split: option.splits)
  have not_active: "\<not> (num_ge (new_Date clk) (Date_parse startDate)
      \<and> num_le (new_Date clk) (Date_parse endDate))"
    using lt by (simp add: s num_ge_def new_Date_def)
  have "daysUntil (getBloomStatus clk interval) = Some (Some (- ((- (s - clk 0)) div MS_PER_DAY)))"
    using up not_active unfolding iv getBloomStatus_def Let_def
    by (simp add: s Math_ceil_div_def num_sub_def new_Date_def)
  moreover have "1 \<le> - ((- (s - clk 0)) div MS_PER_DAY)"
    using lt by (intro ceil_div_pos MS_PER_DAY_pos) simp
  ultimately show ?thesis by blast
qed

lemma matchesSearch_empty: "matchesSearch [] ev"
  by (simp add: matchesSearch_def)


section \<open>The classifier partitions the instants\<close>

text \<open>
  Claim C1. For an interval whose dates parse to \<open>s \<le> e\<close> and any instant \<open>now\<close> read
  from the clock, the classifier returns one of the three statuses, and which one is
  decided by where \<open>now\<close> lies: \<open>active\<close> exactly on \<open>[s, e]\<close>, \<open>upcoming\<close> exactly before
  \<open>s\<close>, \<open>past\<close> exactly after \<open>e\<close>. The three cases leave no gap and do not overlap, and
  the two boundary instants \<open>now = s\<close> and \<open>now = e\<close> are \<open>active\<close>.
\<close>

theorem classifier_partition:
  assumes "Date_parse startDate = Some s" and "Date_parse endDate = Some e"
    and "s \<le> e" and "new_Date clk = Some now"
  shows "(status (getBloomStatus clk (startDate, endDate)) = Active \<longleftrightarrow> s \<le> now \<and> now \<le> e)
     \<and> (status (getBloomStatus clk (startDate, endDate)) = Upcoming \<longleftrightarrow> now < s)
     \<and> (status (getBloomStatus clk (startDate, endDate)) = Past \<longleftrightarrow> e < now)
     \<and> (now = s \<or> now = e \<longrightarrow> status (getBloomStatus clk (startDate, endDate)) = Active)"
  using assms(3) by (auto simp add: getBloomStatus_parsed [OF assms(1,2,4)])

theorem classifier_partition_witness:
  "Date_parse ''2024-03-01'' = Some 1709251200000
   \<and> Date_parse ''2024-03-20'' = Some 1710892800000
   \<and> (1709251200000 :: int) \<le> 1710892800000
   \<and> new_Date (steady_clock 1710892800000) = Some 1710892800000
   \<and> status (getBloomStatus (steady_clock 1710892800000) (''2024-03-01'', ''2024-03-20'')) = Active
   \<and> status (getBloomStatus (steady_clock 1710892800000) (''2024-03-01'', ''2024-03-20'')) \<noteq> Upcoming
   \<and> status (getBloomStatus (steady_clock 1710892800000) (''2024-03-01'', ''2024-03-20'')) \<noteq> Past"
  using classifier_partition [OF Date_parse_2024_03_01 Date_parse_2024_03_20 _ new_Date_steady,
      of 1710892800000]
    Date_parse_2024_03_01 Date_parse_2024_03_20 new_Date_steady [of 1710892800000]
  by simp


section \<open>Intervals with start after end\<close>

text \<open>
  Claim C3 fails as stated: the classifier has no \<open>InvalidInterval\<close> signal, and the
  catalog keeps a record whose interval is reversed. On the first of April 2024 the entry
  with the interval from 2024-03-20 back to 2024-03-01 is classified \<open>past\<close>, 31 days
  since its end date, and the filter \<open>inactive\<close> selects it.
\<close>

theorem invalid_interval_counterexample:
  "Date_parse (fst (peakTimeInterval reversed_event)) = Some 1710892800000
   \<and> Date_parse (snd (peakTimeInterval reversed_event)) = Some 1709251200000
   \<and> getBloomStatus (steady_clock 1711929600000) (peakTimeInterval reversed_event) =
       \<lparr>isActive = False, status = Past, daysUntil = None, daysSince = Some (Some 31)\<rparr>
   \<and> filteredEvents (steady_clock 1711929600000) FilterInactive [] [reversed_event]
       = [reversed_event]"
proof -
  have r: "getBloomStatus (steady_clock 1711929600000) (''2024-03-20'', ''2024-03-01'') =
      \<lparr>isActive = False, status = Past, daysUntil = None, daysSince = Some (Some 31)\<rparr>"
    by (simp add: MS_PER_DAY_def
        getBloomStatus_parsed [OF Date_parse_2024_03_20 Date_parse_2024_03_01 new_Date_steady])
  show ?thesis
    by (simp add: reversed_event_def example_event_def r Date_parse_2024_03_20
        Date_parse_2024_03_01 filterCallback_def matchesFilter_def matchesSearch_empty)
qed

text \<open>
  Claim C3, amended. For an interval whose dates parse to \<open>s > e\<close> the classifier returns
  an ordinary result and leaves the pair as it is: \<open>upcoming\<close>, with the days until \<open>s\<close>, while
  \<open>now < s\<close>, and \<open>past\<close>, with the days since \<open>e\<close>, from \<open>s\<close> on; it is never \<open>active\<close>.
  The catalog filters such a record by that status like any other: the filter \<open>active\<close>
  never selects it, and exactly one of \<open>soon\<close> and \<open>inactive\<close> does.
\<close>

theorem reversed_interval_classified:
  assumes "Date_parse startDate = Some s" and "Date_parse endDate = Some e"
    and "s > e" and "new_Date clk = Some now"
  shows "getBloomStatus clk (startDate, endDate) =
       (if now < s then
          \<lparr>isActive = False, status = Upcoming,
           daysUntil = Some (Some (- ((- (s - now)) div MS_PER_DAY))), daysSince = None\<rparr>
        else
          \<lparr>isActive = False, status = Past, daysUntil = None,
           daysSince = Some (Some (- ((- (now - e)) div MS_PER_DAY)))\<rparr>)
     \<and> \<not> matchesFilter FilterActive (getBloomStatus clk (startDate, endDate))
     \<and> (matchesFilter FilterSoon (getBloomStatus clk (startDate, endDate))
          \<noteq> matchesFilter FilterInactive (getBloomStatus clk (startDate, endDate)))"
proof -
  have r: "getBloomStatus clk (startDate, endDate) =
       (if now < s then
          \<lparr>isActive = False, status = Upcoming,
           daysUntil = Some (Some (- ((- (s - now)) div MS_PER_DAY))), daysSince = None\<rparr>
        else
          \<lparr>isActive = False, status = Past, daysUntil = None,
           daysSince = Some (Some (- ((- (now - e)) div MS_PER_DAY)))\<rparr>)"
    using assms(3) by (simp add: getBloomStatus_parsed [OF assms(1,2,4)])
  have not_active: "\<not> matchesFilter FilterActive (getBloomStatus clk (startDate, endDate))"
    by (simp add: r matchesFilter_def)
  have one: "matchesFilter FilterSoon (getBloomStatus clk (startDate, endDate))
          \<noteq> matchesFilter FilterInactive (getBloomStatus clk (startDate, endDate))"
  proof (cases "now < s")
    case True
    then have "1 \<le> - ((- (s - now)) div MS_PER_DAY)"
      by (intro ceil_div_pos MS_PER_DAY_pos) simp
    then show ?thesis
      using True
      by (auto simp add: r matchesFilter_def truthy_def toNumber_def num_le_def num_gt_def)
  next
    case False
    then show ?thesis by (simp add: r matchesFilter_def)
  qed
  from r not_active one show ?thesis by blast
qed

theorem reversed_interval_classified_witness:
  "Date_parse ''2024-03-20'' = Some 1710892800000
   \<and> Date_parse ''2024-03-01'' = Some 1709251200000
   \<and> (1710892800000 :: int) > 1709251200000
   \<and> new_Date (steady_clock 1710000000000) = Some 1710000000000
   \<and> getBloomStatus (steady_clock 1710000000000) (''2024-03-20'', ''2024-03-01'') =
       \<lparr>isActive = False, status = Upcoming, daysUntil = Some (Some 11), daysSince = None\<rparr>
   \<and> \<not> matchesFilter FilterActive
         (getBloomStatus (steady_clock 1710000000000) (''2024-03-20'', ''2024-03-01''))"
  using reversed_interval_classified [OF Date_parse_2024_03_20 Date_parse_2024_03_01 _
      new_Date_steady, of 1710000000000]
    Date_parse_2024_03_20 Date_parse_2024_03_01 new_Date_steady [of 1710000000000]
  by (auto simp add: MS_PER_DAY_def)


section \<open>The status filters of the catalog\<close>

text \<open>
  Claim C4. For every event and every instant read from the clock, the filter \<open>soon\<close>
  selects the event exactly when its status is \<open>upcoming\<close> with \<open>daysUntil \<le> 50\<close>, and the
  filter \<open>inactive\<close> exactly when its status is \<open>past\<close>, or \<open>upcoming\<close> with
  \<open>daysUntil > 50\<close>. The threshold is the literal 50. (The search term is empty, so that
  only the status filter decides.)
\<close>

theorem status_filter_selects:
  "(filterCallback clk FilterSoon [] ev \<longleftrightarrow>
      status (getBloomStatus clk (peakTimeInterval ev)) = Upcoming
      \<and> (\<exists>d. daysUntil (getBloomStatus clk (peakTimeInterval ev)) = Some (Some d) \<and> d \<le> 50))
   \<and> (filterCallback clk FilterInactive [] ev \<longleftrightarrow>
      status (getBloomStatus clk (peakTimeInterval ev)) = Past
      \<or> (status (getBloomStatus clk (peakTimeInterval ev)) = Upcoming
          \<and> (\<exists>d. daysUntil (getBloomStatus clk (peakTimeInterval ev)) = Some (Some d) \<and> d > 50)))"
proof (cases "status (getBloomStatus clk (peakTimeInterval ev)) = Upcoming")
  case True
  from getBloomStatus_upcoming_days [OF True]
  obtain d where d: "daysUntil (getBloomStatus clk (peakTimeInterval ev)) = Some (Some d)"
    and pos: "1 \<le> d"
    by blast
  show ?thesis
    using True pos
    by (simp add: filterCallback_def matchesFilter_def matchesSearch_empty d truthy_def
        toNumber_def num_le_def num_gt_def)
next
  case False
  then show ?thesis
    by (simp add: filterCallback_def matchesFilter_def matchesSearch_empty)
qed

theorem status_filter_selects_witness:
  "filterCallback (steady_clock 1708387200000) FilterSoon [] example_event
   \<and> \<not> filterCallback (steady_clock 1708387200000) FilterInactive [] example_event
   \<and> daysUntil (getBloomStatus (steady_clock 1708387200000) (peakTimeInterval example_event))
       = Some (Some 10)"
proof -
  have r: "getBloomStatus (steady_clock 1708387200000) (peakTimeInterval example_event) =
      \<lparr>isActive = False, status = Upcoming, daysUntil = Some (Some 10), daysSince = None\<rparr>"
    by (simp add: example_event_def MS_PER_DAY_def
        getBloomStatus_parsed [OF Date_parse_2024_03_01 Date_parse_2024_03_20 new_Date_steady])
  from status_filter_selects [of "steady_clock 1708387200000" example_event] r
  show ?thesis by simp
qed


section \<open>The classifier and the wall clock\<close>

text \<open>
  Claim C7 fails as stated: the instant is not an argument of the classifier, which reads
  the wall clock itself. Called on the same interval, it answers \<open>upcoming\<close> when the clock
  shows 2024-02-20 and \<open>active\<close> when it shows 2024-03-01.
\<close>

theorem classifier_observes_clock_counterexample:
  "getBloomStatus (steady_clock 1708387200000) (''2024-03-01'', ''2024-03-20'')
     \<noteq> getBloomStatus (steady_clock 1709251200000) (''2024-03-01'', ''2024-03-20'')"
  by (simp add: getBloomStatus_parsed [OF Date_parse_2024_03_01 Date_parse_2024_03_20
        new_Date_steady])

text \<open>
  Claim C7, amended. The classifier takes the interval alone and reads the wall clock once;
  its result is determined by the interval and the instant it reads: two evaluations on the
  same interval that read the same instant give the same result, whatever the clock
  shows afterwards.
\<close>

theorem classifier_reads_clock_once:
  "new_Date clk1 = new_Date clk2 \<Longrightarrow>
     getBloomStatus clk1 interval = getBloomStatus clk2 interval"
  by (simp add: getBloomStatus_def Let_def)

theorem classifier_reads_clock_once_witness:
  "new_Date (\<lambda>k. 1709251200000 + int k) = new_Date (steady_clock 1709251200000)
   \<and> getBloomStatus (\<lambda>k. 1709251200000 + int k) (''2024-03-01'', ''2024-03-20'')
     = getBloomStatus (steady_clock 1709251200000) (''2024-03-01'', ''2024-03-20'')"
proof -
  have same: "new_Date (\<lambda>k. 1709251200000 + int k) = new_Date (steady_clock 1709251200000)"
    by (simp add: new_Date_def steady_clock_def)
  from classifier_reads_clock_once [OF same] same show ?thesis by simp
qed


section \<open>The scenario of the twentieth of February\<close>

text \<open>
  Claim C9 fails as stated: 2024 is a leap year, and from 2024-02-20 to 2024-03-01 there
  are ten days, not nine.
\<close>

theorem scenario_days_until_counterexample:
  "Date_parse ''2024-02-20'' = Some 1708387200000
   \<and> daysUntil (getBloomStatus (steady_clock 1708387200000) (''2024-03-01'', ''2024-03-20''))
       \<noteq> Some (Some 9)"
  by (simp add: Date_parse_2024_02_20 MS_PER_DAY_def
      getBloomStatus_parsed [OF Date_parse_2024_03_01 Date_parse_2024_03_20 new_Date_steady])

text \<open>
  Claim C9, amended. For the interval from 2024-03-01 to 2024-03-20 and the clock at
  2024-02-20, the classifier returns \<open>upcoming\<close> with \<open>daysUntil = 10\<close>, which is
  \<open>ceil((start - now) / 1 day)\<close>.
\<close>

theorem scenario_days_until:
  "new_Date clk = Date_parse ''2024-02-20'' \<Longrightarrow>
     getBloomStatus clk (''2024-03-01'', ''2024-03-20'') =
       \<lparr>isActive = False, status = Upcoming, daysUntil = Some (Some 10), daysSince = None\<rparr>
     \<and> Math_ceil_div (num_sub (Date_parse ''2024-03-01'') (new_Date clk)) MS_PER_DAY = Some 10"
  by (simp add: Date_parse_2024_02_20 MS_PER_DAY_def Math_ceil_div_def num_sub_def
      Date_parse_2024_03_01
      getBloomStatus_parsed [OF Date_parse_2024_03_01 Date_parse_2024_03_20])

theorem scenario_days_until_witness:
  "new_Date (steady_clock 1708387200000) = Date_parse ''2024-02-20''
   \<and> getBloomStatus (steady_clock 1708387200000) (''2024-03-01'', ''2024-03-20'') =
       \<lparr>isActive = False, status = Upcoming, daysUntil = Some (Some 10), daysSince = None\<rparr>"
proof -
  have now: "new_Date (steady_clock 1708387200000) = Date_parse ''2024-02-20''"
    by (simp add: new_Date_steady Date_parse_2024_02_20)
  from scenario_days_until [OF now] now show ?thesis by simp
qed

text \<open>
  The same answer at every instant of that day (UTC), so the count does not depend on the
  time of day the clock shows.
\<close>

lemma days_until_whole_utc_day:
  assumes "new_Date clk = Some now"
    and "1708387200000 \<le> now" and "now < 1708387200000 + MS_PER_DAY"
  shows "daysUntil (getBloomStatus clk (''2024-03-01'', ''2024-03-20'')) = Some (Some 10)"
proof -
  have "- ((- (1709251200000 - now)) div 86400000) = 10"
    using assms(2,3) by (simp add: MS_PER_DAY_def)
  then show ?thesis
    using assms(2,3)
    by (simp add: MS_PER_DAY_def
        getBloomStatus_parsed [OF Date_parse_2024_03_01 Date_parse_2024_03_20 assms(1)])
qed


section \<open>The two classifier functions agree\<close>

text \<open>
  Claim C10. For every interval, at the same instant read from the clock,
  \<open>isBloomActive\<close> returns true if and only if \<open>getBloomStatus\<close> returns the status
  \<open>active\<close>; the \<open>isActive\<close> field of the latter equals the result of the former.
\<close>

theorem isBloomActive_agrees:
  "new_Date clk1 = new_Date clk2 \<Longrightarrow>
     isBloomActive clk1 interval = isActive (getBloomStatus clk2 interval)
     \<and> (isBloomActive clk1 interval \<longleftrightarrow> status (getBloomStatus clk2 interval) = Active)"
  by (cases interval) (simp add: isBloomActive_def getBloomStatus_def Let_def)

theorem isBloomActive_agrees_witness:
  "new_Date (steady_clock 1709251200000) = new_Date (steady_clock 1709251200000)
   \<and> isBloomActive (steady_clock 1709251200000) (''2024-03-01'', ''2024-03-20'')
   \<and> isActive (getBloomStatus (steady_clock 1709251200000) (''2024-03-01'', ''2024-03-20''))
   \<and> status (getBloomStatus (steady_clock 1709251200000) (''2024-03-01'', ''2024-03-20'')) = Active"
proof -
  have act: "isBloomActive (steady_clock 1709251200000) (''2024-03-01'', ''2024-03-20'')"
    by (simp add: isBloomActive_def new_Date_steady Date_parse_2024_03_01 Date_parse_2024_03_20
        num_ge_def num_le_def)
  from isBloomActive_agrees [of "steady_clock 1709251200000" "steady_clock 1709251200000"
      "(''2024-03-01'', ''2024-03-20'')"] act
  show ?thesis by simp
qed


section \<open>Searching the catalog\<close>

















text \<open>Accented capitals fold as well, and the multiplication sign is not a capital.\<close>

lemma search_folds_accented_letters:
  "matchesSearch [CHR 0xC9] (example_event\<lparr>title := [CHR 0xE9, CHR ''t'', CHR 0xE9]\<rparr>)
   \<and> matchesSearch [CHR 0xE9] (example_event\<lparr>title := [CHR 0xC9, CHR ''T'', CHR 0xC9]\<rparr>)
   \<and> \<not> matchesSearch [CHR 0xD7] (example_event\<lparr>title := [CHR 0xF7]\<rparr>)"
  by code_simp



section \<open>Facts about the viewer's navigation\<close>

lemma viewMode_goToImage: "viewMode (goToImage i v) = viewMode v"
  by (simp add: goToImage_def)

lemma viewMode_goToPrevious: "viewMode (goToPrevious ev v) = viewMode v"
  by (simp add: goToPrevious_def Let_def)

lemma viewMode_goToNext: "viewMode (goToNext ev v) = viewMode v"
  by (simp add: goToNext_def Let_def)

lemma viewMode_run_call: "viewMode (run_call ev v c) = viewMode v"
  by (cases c) (simp_all add: viewMode_goToImage viewMode_goToPrevious viewMode_goToNext)

lemma currentData_length_run_call:
  "currentData_length ev (run_call ev v c) = currentData_length ev v"
  by (simp add: currentData_length_def viewMode_run_call)

lemma call_in_range_run_call:
  "call_in_range ev (run_call ev v c) c' = call_in_range ev v c'"
  by (cases c') (simp_all add: currentData_length_run_call)

lemma currentIndex_goToImage: "currentIndex (goToImage i v) = i"
  by (cases "viewMode v") (simp_all add: currentIndex_def goToImage_def)

lemma currentIndex_goToPrevious:
  "currentData_length ev v \<noteq> 0 \<Longrightarrow>
     currentIndex (goToPrevious ev v) =
       (if currentIndex v = 0 then currentData_length ev v - 1 else currentIndex v - 1)"
  by (cases "viewMode v")
    (simp_all add: currentIndex_def currentData_length_def goToPrevious_def Let_def)

lemma currentIndex_goToNext:
  "currentData_length ev v \<noteq> 0 \<Longrightarrow>
     currentIndex (goToNext ev v) =
       (if currentIndex v = currentData_length ev v - 1 then 0 else currentIndex v + 1)"
  by (cases "viewMode v")
    (simp_all add: currentIndex_def currentData_length_def goToNext_def Let_def)

lemma goTo_empty_unchanged:
  "currentData_length ev v = 0 \<Longrightarrow> goToPrevious ev v = v \<and> goToNext ev v = v"
  by (cases "viewMode v")
    (simp_all add: currentData_length_def goToPrevious_def goToNext_def)

lemma single_image_step:
  assumes "currentData_length ev v = 1" and "currentIndex v = 0"
  shows "goToPrevious ev v = v\<lparr>isZoomed := False, imageLoaded := False\<rparr>
     \<and> goToNext ev v = v\<lparr>isZoomed := False, imageLoaded := False\<rparr>"
  using assms
  by (cases "viewMode v")
    (simp_all add: currentData_length_def currentIndex_def goToPrevious_def goToNext_def)

lemma index_valid_run_call:
  assumes "index_valid ev v" and "call_in_range ev v c"
  shows "index_valid ev (run_call ev v c)"
proof (cases c)
  case CallNext
  from assms(1) have "currentData_length ev v \<noteq> 0"
    by (auto simp add: index_valid_def)
  with assms(1) show ?thesis
    unfolding index_valid_def CallNext
    by (simp add: currentIndex_goToNext currentData_length_run_call [of ev v CallNext, simplified])
next
  case CallPrevious
  from assms(1) have "currentData_length ev v \<noteq> 0"
    by (auto simp add: index_valid_def)
  with assms(1) show ?thesis
    unfolding index_valid_def CallPrevious
    by (simp add: currentIndex_goToPrevious
        currentData_length_run_call [of ev v CallPrevious, simplified])
next
  case (CallGoToImage i)
  with assms(2) show ?thesis
    unfolding index_valid_def
    by (simp add: currentIndex_goToImage
        currentData_length_run_call [of ev v "CallGoToImage i", simplified])
qed

lemma index_valid_run_calls:
  "index_valid ev v \<Longrightarrow> list_all (call_in_range ev v) calls \<Longrightarrow>
     index_valid ev (run_calls ev v calls)"
proof (induction calls arbitrary: v)
  case Nil
  then show ?case by (simp add: run_calls_def)
next
  case (Cons c calls)
  from Cons.prems have v1: "index_valid ev (run_call ev v c)"
    by (simp add: index_valid_run_call)
  have "call_in_range ev (run_call ev v c) = call_in_range ev v"
    by (rule ext) (rule call_in_range_run_call)
  with Cons.prems have "list_all (call_in_range ev (run_call ev v c)) calls"
    by simp
  from Cons.IH [OF v1 this] show ?case
    by (simp add: run_calls_def)
qed


section \<open>Jumping to an index\<close>

text \<open>
  Claim C2 fails as stated: \<open>goToImage\<close> has no bounds check. On a gallery of three photos
  at index 0, \<open>goToImage(5)\<close> sets the index to 5, which is outside \<open>[0, 3)\<close>.
\<close>

theorem goToImage_unchecked_counterexample:
  "currentData_length (Some example_event) gallery_viewer = 3
   \<and> index_valid (Some example_event) gallery_viewer
   \<and> currentIndex gallery_viewer = 0
   \<and> currentIndex (goToImage 5 gallery_viewer) = 5
   \<and> \<not> index_valid (Some example_event)
         (run_calls (Some example_event) gallery_viewer [CallGoToImage 5])"
  by (simp add: currentData_length_def index_valid_def currentIndex_def gallery_viewer_def
      example_event_def images_length_def goToImage_def run_calls_def)

text \<open>
  Claim C2, amended. For every viewer state and every integer \<open>i\<close>, \<open>goToImage(i)\<close> sets
  the index of the active mode to \<open>i\<close>, in range or not. After any sequence of
  \<open>goToNext\<close>, \<open>goToPrevious\<close> and \<open>goToImage\<close> calls from a state whose active index is
  valid, in which every \<open>goToImage\<close> call carries an index of the active collection (as
  the rendered controls do), the active mode's index is again within \<open>[0, length)\<close>.
\<close>

theorem navigation_keeps_index_valid:
  "currentIndex (goToImage i v) = i
   \<and> (index_valid selectedEvent v \<and> list_all (call_in_range selectedEvent v) calls
        \<longrightarrow> index_valid selectedEvent (run_calls selectedEvent v calls))"
  by (simp add: currentIndex_goToImage index_valid_run_calls)

theorem navigation_keeps_index_valid_witness:
  "index_valid (Some example_event) gallery_viewer
   \<and> list_all (call_in_range (Some example_event) gallery_viewer)
        [CallPrevious, CallGoToImage 1, CallNext, CallNext]
   \<and> index_valid (Some example_event)
        (run_calls (Some example_event) gallery_viewer
           [CallPrevious, CallGoToImage 1, CallNext, CallNext])
   \<and> currentIndex (goToImage 1 gallery_viewer) = 1"
proof -
  have v: "index_valid (Some example_event) gallery_viewer"
    by (simp add: index_valid_def currentIndex_def currentData_length_def gallery_viewer_def
        example_event_def images_length_def)
  have c: "list_all (call_in_range (Some example_event) gallery_viewer)
        [CallPrevious, CallGoToImage 1, CallNext, CallNext]"
    by (simp add: currentData_length_def gallery_viewer_def example_event_def images_length_def)
  from navigation_keeps_index_valid [of 1 gallery_viewer "Some example_event"
      "[CallPrevious, CallGoToImage 1, CallNext, CallNext]"] v c
  show ?thesis by blast
qed


section \<open>Stepping backwards and forwards\<close>

text \<open>
  Claim C5 fails as stated for a collection of one element: the step is not a no-op. With
  a single gallery photo shown zoomed and loaded, \<open>goToNext\<close> and \<open>goToPrevious\<close> (and
  the arrow keys, which call them) change the state.
\<close>

theorem single_image_step_counterexample:
  "currentData_length (Some single_image_event) zoomed_viewer = 1
   \<and> currentIndex zoomed_viewer = 0
   \<and> goToNext (Some single_image_event) zoomed_viewer \<noteq> zoomed_viewer
   \<and> goToPrevious (Some single_image_event) zoomed_viewer \<noteq> zoomed_viewer
   \<and> handleKeyDown ''ArrowRight'' (Some single_image_event) zoomed_viewer \<noteq> zoomed_viewer"
  by (simp add: currentData_length_def currentIndex_def zoomed_viewer_def gallery_viewer_def
      single_image_event_def example_event_def images_length_def goToNext_def goToPrevious_def
      handleKeyDown_def)

text \<open>
  Claim C5, amended. When the active collection has at least two elements,
  \<open>goToPrevious\<close> at index 0 sets the index to \<open>length - 1\<close> and \<open>goToNext\<close> at index
  \<open>length - 1\<close> sets it to 0, and otherwise they step by one. When the collection is empty
  (or no event is selected) both leave the state unchanged. When it has exactly one
  element, at index 0, both leave the index at 0 and reset \<open>isZoomed\<close> and \<open>imageLoaded\<close> to
  false, as every step does.
\<close>

theorem step_wraps_or_stays:
  "(2 \<le> currentData_length selectedEvent v \<longrightarrow>
      currentIndex (goToPrevious selectedEvent v) =
        (if currentIndex v = 0 then currentData_length selectedEvent v - 1
         else currentIndex v - 1)
      \<and> currentIndex (goToNext selectedEvent v) =
        (if currentIndex v = currentData_length selectedEvent v - 1 then 0
         else currentIndex v + 1))
   \<and> (currentData_length selectedEvent v = 0 \<longrightarrow>
        goToPrevious selectedEvent v = v \<and> goToNext selectedEvent v = v)
   \<and> (currentData_length selectedEvent v = 1 \<and> currentIndex v = 0 \<longrightarrow>
        goToPrevious selectedEvent v = v\<lparr>isZoomed := False, imageLoaded := False\<rparr>
        \<and> goToNext selectedEvent v = v\<lparr>isZoomed := False, imageLoaded := False\<rparr>)"
  using goTo_empty_unchanged [of selectedEvent v] single_image_step [of selectedEvent v]
  by (simp add: currentIndex_goToPrevious currentIndex_goToNext)

theorem step_wraps_or_stays_witness:
  "2 \<le> currentData_length (Some example_event) gallery_viewer
   \<and> currentIndex gallery_viewer = 0
   \<and> currentIndex (goToPrevious (Some example_event) gallery_viewer) = 2
   \<and> currentIndex (goToNext (Some example_event) gallery_viewer) = 1
   \<and> currentData_length None zoomed_viewer = 0
   \<and> goToNext None zoomed_viewer = zoomed_viewer
   \<and> currentData_length (Some single_image_event) zoomed_viewer = 1
   \<and> currentIndex zoomed_viewer = 0
   \<and> goToNext (Some single_image_event) zoomed_viewer
       = zoomed_viewer\<lparr>isZoomed := False, imageLoaded := False\<rparr>"
proof -
  have l3: "currentData_length (Some example_event) gallery_viewer = 3"
    by (simp add: currentData_length_def gallery_viewer_def example_event_def images_length_def)
  have l0: "currentData_length None zoomed_viewer = 0"
    by (simp add: currentData_length_def zoomed_viewer_def gallery_viewer_def images_length_def)
  have l1: "currentData_length (Some single_image_event) zoomed_viewer = 1"
    by (simp add: currentData_length_def zoomed_viewer_def gallery_viewer_def
        single_image_event_def example_event_def images_length_def)
  have i0: "currentIndex gallery_viewer = 0" "currentIndex zoomed_viewer = 0"
    by (simp_all add: currentIndex_def zoomed_viewer_def gallery_viewer_def)
  from step_wraps_or_stays [of "Some example_event" gallery_viewer]
    step_wraps_or_stays [of None zoomed_viewer]
    step_wraps_or_stays [of "Some single_image_event" zoomed_viewer]
    l3 l0 l1 i0
  show ?thesis by simp
qed


section \<open>Switching the mode\<close>

text \<open>
  Claim C6 fails as stated: a tab button only sets the mode. A viewer that is zoomed in
  on a loaded image stays zoomed, with the image marked as loaded, after the switch.
\<close>

theorem setViewMode_keeps_flags_counterexample:
  "isZoomed zoomed_viewer \<and> imageLoaded zoomed_viewer
   \<and> isZoomed (setViewMode satellite zoomed_viewer)
   \<and> imageLoaded (setViewMode satellite zoomed_viewer)"
  by (simp add: setViewMode_def zoomed_viewer_def gallery_viewer_def)

text \<open>
  Claim C6, amended. For every viewer state and every mode \<open>m\<close>, selecting \<open>m\<close> sets the
  active mode to \<open>m\<close> and leaves the rest of the state as it is: the current indices of all
  three modes, and also \<open>isZoomed\<close>, the zoom position and \<open>imageLoaded\<close>, which are not
  reset.
\<close>

theorem setViewMode_effect:
  "viewMode (setViewMode m v) = m
   \<and> currentImageIndex (setViewMode m v) = currentImageIndex v
   \<and> currentSatelliteIndex (setViewMode m v) = currentSatelliteIndex v
   \<and> currentGraphIndex (setViewMode m v) = currentGraphIndex v
   \<and> isZoomed (setViewMode m v) = isZoomed v
   \<and> zoomPosition (setViewMode m v) = zoomPosition v
   \<and> imageLoaded (setViewMode m v) = imageLoaded v"
  by (simp add: setViewMode_def)

theorem setViewMode_effect_witness:
  "viewMode (setViewMode graph zoomed_viewer) = graph
   \<and> currentImageIndex (setViewMode graph zoomed_viewer) = 0
   \<and> isZoomed (setViewMode graph zoomed_viewer)"
  using setViewMode_effect [of graph zoomed_viewer]
  by (simp add: zoomed_viewer_def gallery_viewer_def)

end
